theory Spec2Isabelle
  imports Complex_Main
begin

section \<open>Numbers and the runtime's functions\<close>

text \<open>
  The two pricing engines of the calculator, \<open>CarRentalSelector\<close> (the \<open>costs\<close> memo) and
  \<open>HotelSelector\<close> (\<open>calculateCashPrice\<close>, \<open>calculatePointsSavings\<close> and the effect that
  reports them), are embedded as HOL functions.

  A JavaScript number is modelled as a \<open>real\<close>: the arithmetic is exact, so the rounding
  error of IEEE doubles, \<open>NaN\<close> and the infinities are not represented. The one place where
  the source itself reacts to \<open>NaN\<close>, \<open>Number(points) || 0\<close>, is modelled with an option
  (\<open>None\<close> is \<open>NaN\<close>).

  \<open>Math.round\<close> rounds to the nearest integer, a tie going up (towards plus infinity).
  On doubles the product \<open>v * 100\<close> of a value at a half-cent tie can fall to either side of
  the tie, so what is proved of a rounded price is the cent grid and the distance to the
  unrounded value, not which of the two neighbouring cents a tie goes to.
\<close>

definition Math_round :: "real \<Rightarrow> int" where
  "Math_round x = \<lfloor>x + 1 / 2\<rfloor>"

definition Math_ceil :: "real \<Rightarrow> int" where
  "Math_ceil x = \<lceil>x\<rceil>"

definition Math_min :: "real \<Rightarrow> real \<Rightarrow> real" where
  "Math_min a b = min a b"

text \<open>\<open>Math.round(v * 100) / 100\<close>, the rounding to two decimals of the car rental engine.\<close>

definition round2 :: "real \<Rightarrow> real" where
  "round2 v = real_of_int (Math_round (v * 100)) / 100"

section \<open>Car rental: data\<close>

text \<open>
  \<open>interface CarRental\<close> of the data declarations. The table \<open>carRentals\<close> itself is imported
  from \<open>../data/travelData\<close>; it is a parameter of the model.
\<close>

record categories_t =
  economy :: real
  midsize :: real
  luxury :: real
  suv :: real

record CarRental =
  company :: string
  basePrice :: real
  categories :: categories_t

text \<open>The \<open>details\<close> property of \<open>CarRentalSelectorProps\<close>.\<close>

record car_details =
  details_company :: string
  details_category :: string
  details_days :: real

text \<open>The object the memo returns; \<open>details\<close> is present in the last branch only.\<close>

record breakdown =
  baseRate :: real
  discount :: real
  fees :: real
  taxes :: real

record cost =
  cashPrice :: real
  pointsSavings :: real

record car_cost = cost +
  details :: "breakdown option"

text \<open>
  \<open>rental.categories[details.category]\<close>: the value stored under one of the four keys of
  the object, \<open>undefined\<close> (\<open>None\<close>) for any other string. The names of the members that
  a JavaScript object inherits from its prototype (\<open>toString\<close> and the like) are left out
  here: under such a name the lookup finds a function and the prices are \<open>NaN\<close>, which
  \<open>costs_or_NaN\<close> below accounts for.
\<close>

definition category_lookup :: "categories_t \<Rightarrow> string \<Rightarrow> real option" where
  "category_lookup c k =
     (if k = ''economy'' then Some (economy c)
      else if k = ''midsize'' then Some (midsize c)
      else if k = ''luxury'' then Some (luxury c)
      else if k = ''suv'' then Some (suv c)
      else None)"

text \<open>\<open>rental.categories[...] || 1\<close>: \<open>undefined\<close> and the number 0 are both falsy.\<close>

definition categoryMultiplier :: "CarRental \<Rightarrow> string \<Rightarrow> real" where
  "categoryMultiplier rental category =
     (case category_lookup (categories rental) category of
        None \<Rightarrow> 1
      | Some m \<Rightarrow> if m = 0 then 1 else m)"

section \<open>Car rental: the pricing engine\<close>

definition zero_cost :: car_cost where
  "zero_cost = \<lparr>cashPrice = 0, pointsSavings = 0, details = None\<rparr>"

text \<open>
  The body of \<open>useMemo\<close> in \<open>CarRentalSelector\<close>, one \<open>let\<close> per \<open>const\<close>. The locals
  \<open>discount\<close>, \<open>cashPrice\<close> and \<open>pointsSavings\<close> are called \<open>disc\<close>, \<open>cash\<close> and \<open>savings\<close>,
  apart from the fields of the result that bear their names.
\<close>

definition costs :: "CarRental list \<Rightarrow> car_details \<Rightarrow> real \<Rightarrow> car_cost" where
  "costs carRentals d points =
     (if details_company d = [] \<or> details_days d \<le> 0 then zero_cost
      else
        case find (\<lambda>r. company r = details_company d) carRentals of
          None \<Rightarrow> zero_cost
        | Some rental \<Rightarrow>
            let dailyRate = basePrice rental * categoryMultiplier rental (details_category d);
                baseRental = dailyRate * details_days d;
                insuranceFee = 15 * details_days d;
                airportFee = 25;
                vehicleLicenseFee = 8.50;
                facilityFee = 12;
                totalFees = insuranceFee + airportFee + vehicleLicenseFee + facilityFee;
                disc = (if details_days d \<ge> 7 then 0.15
                        else if details_days d \<ge> 3 then 0.10 else 0);
                discountedBase = baseRental * (1 - disc);
                subtotal = discountedBase + totalFees;
                salesTax = subtotal * 0.0825;
                rentalTax = baseRental * 0.115;
                totalTaxes = salesTax + rentalTax;
                cash = subtotal + totalTaxes;
                savings = Math_min (points * 0.008) (cash * 0.5)
            in \<lparr>cashPrice = round2 cash,
                pointsSavings = round2 savings,
                details = Some \<lparr>baseRate = dailyRate, discount = disc,
                                fees = totalFees, taxes = totalTaxes\<rparr>\<rparr>)"

section \<open>Hotel: data\<close>

text \<open>
  An entry of \<open>expandedHiltonProperties\<close> (imported from \<open>../data/hiltonProperties\<close>, a
  parameter of the model), with the fields the selector reads for pricing.
\<close>

record property =
  prop_id :: string
  prop_brandId :: string
  prop_basePrice :: real
  prop_city :: string
  prop_amenities :: "string list"

text \<open>The \<open>details\<close> property of \<open>HotelSelectorProps\<close>.\<close>

record hotel_details =
  details_brand :: string
  details_property :: string
  details_checkIn :: string
  details_checkOut :: string
  details_rooms :: real
  details_points :: string

text \<open>
  What the engine reads of a \<open>Date\<close> object: \<open>getTime()\<close>, in milliseconds, and
  \<open>getMonth()\<close>, the month in the local time zone, from 0 for January. The constructor
  \<open>new Date(string)\<close> and the conversion \<open>Number(string)\<close> belong to the runtime and
  are parameters of the model, called \<open>Date\<close> and \<open>Number\<close> below; \<open>Number\<close> returns
  \<open>None\<close> for \<open>NaN\<close>.
\<close>

record js_date =
  getTime :: int
  getMonth :: int

definition HOTEL_FEES_resortFee :: real where "HOTEL_FEES_resortFee = 35"
definition HOTEL_FEES_parkingFee :: real where "HOTEL_FEES_parkingFee = 25"
definition HOTEL_FEES_serviceFee :: real where "HOTEL_FEES_serviceFee = 10"
definition HOTEL_FEES_amenityFee :: real where "HOTEL_FEES_amenityFee = 15"
definition HOTEL_FEES_destinationFee :: real where "HOTEL_FEES_destinationFee = 20"

definition TAX_RATES_roomTax :: real where "TAX_RATES_roomTax = 0.145"
definition TAX_RATES_occupancyTax :: real where "TAX_RATES_occupancyTax = 0.035"
definition TAX_RATES_cityTax :: real where "TAX_RATES_cityTax = 0.02"
definition TAX_RATES_tourismLevy :: real where "TAX_RATES_tourismLevy = 0.01"

definition SEASONAL_RATES_peak :: real where "SEASONAL_RATES_peak = 1.4"
definition SEASONAL_RATES_shoulder :: real where "SEASONAL_RATES_shoulder = 1.2"
definition SEASONAL_RATES_offPeak :: real where "SEASONAL_RATES_offPeak = 0.8"

section \<open>Hotel: the pricing engine\<close>

text \<open>
  \<open>selectedProperty\<close>: \<open>details.property ? expandedHiltonProperties.find(...) : null\<close>.
\<close>

definition selectedProperty :: "property list \<Rightarrow> hotel_details \<Rightarrow> property option" where
  "selectedProperty expandedHiltonProperties d =
     (if details_property d \<noteq> []
      then find (\<lambda>p. prop_id p = details_property d) expandedHiltonProperties
      else None)"

text \<open>\<open>nights\<close>, the first \<open>const\<close> of \<open>calculateCashPrice\<close>.\<close>

definition nights_between :: "(string \<Rightarrow> js_date) \<Rightarrow> string \<Rightarrow> string \<Rightarrow> int" where
  "nights_between Date checkIn checkOut =
     Math_ceil (real_of_int (getTime (Date checkOut) - getTime (Date checkIn))
                / (1000 * 60 * 60 * 24))"

text \<open>\<open>seasonalRate\<close> as \<open>calculateCashPrice\<close> sets it from the month of the check-in.\<close>

definition seasonalRate :: "int \<Rightarrow> real" where
  "seasonalRate month =
     (if month \<ge> 5 \<and> month \<le> 7 then SEASONAL_RATES_peak
      else if month \<ge> 2 \<and> month \<le> 4 then SEASONAL_RATES_shoulder
      else if month \<ge> 11 \<or> month \<le> 1 then SEASONAL_RATES_offPeak
      else 1)"

text \<open>\<open>lengthDiscount\<close>, the nested conditional on \<open>nights\<close>.\<close>

definition lengthDiscount :: "int \<Rightarrow> real" where
  "lengthDiscount nights =
     (if nights \<ge> 7 then 0.85
      else if nights \<ge> 4 then 0.9
      else if nights \<ge> 2 then 0.95 else 1)"

text \<open>\<open>selectedProperty?.city && [...].includes(selectedProperty.city)\<close>, as a truth value.\<close>

definition isMajorCity :: "property option \<Rightarrow> bool" where
  "isMajorCity sel =
     (case sel of
        None \<Rightarrow> False
      | Some p \<Rightarrow> prop_city p \<noteq> [] \<and>
          prop_city p \<in> set [''New York'', ''Los Angeles'', ''Chicago'', ''Miami'', ''Las Vegas''])"

definition hasResortFee :: "property option \<Rightarrow> bool" where
  "hasResortFee sel =
     (case sel of
        None \<Rightarrow> False
      | Some p \<Rightarrow> ''Pool'' \<in> set (prop_amenities p) \<or>
                  ''Spa Services'' \<in> set (prop_amenities p))"

text \<open>
  \<open>calculateCashPrice\<close>. It closes over \<open>selectedProperty\<close>, which is the second argument
  here.
\<close>

definition calculateCashPrice ::
  "(string \<Rightarrow> js_date) \<Rightarrow> property option \<Rightarrow> real \<Rightarrow> string \<Rightarrow> string \<Rightarrow> real \<Rightarrow> real" where
  "calculateCashPrice Date sel base checkIn checkOut rooms =
     (if checkIn = [] \<or> checkOut = [] then 0
      else
        let nights = nights_between Date checkIn checkOut in
        if nights \<le> 0 then 0
        else
          let month = getMonth (Date checkIn);
              roomCost = base * seasonalRate month * lengthDiscount nights
                         * real_of_int nights * rooms;
              fee = ((if hasResortFee sel then HOTEL_FEES_resortFee else 0)
                     + HOTEL_FEES_serviceFee
                     + HOTEL_FEES_amenityFee
                     + (if isMajorCity sel then HOTEL_FEES_destinationFee else 0))
                    * real_of_int nights * rooms;
              roomTax = roomCost * TAX_RATES_roomTax;
              occupancyTax = roomCost * TAX_RATES_occupancyTax;
              cityTax = (if isMajorCity sel then roomCost * TAX_RATES_cityTax else 0);
              tourismLevy = roomCost * TAX_RATES_tourismLevy
          in roomCost + fee + roomTax + occupancyTax + cityTax + tourismLevy)"

text \<open>\<open>Number(points) || 0\<close>: \<open>NaN\<close> and 0 are falsy.\<close>

definition pointsNum :: "(string \<Rightarrow> real option) \<Rightarrow> string \<Rightarrow> real" where
  "pointsNum Number points =
     (case Number points of None \<Rightarrow> 0 | Some v \<Rightarrow> if v = 0 then 0 else v)"

definition calculatePointsSavings :: "(string \<Rightarrow> real option) \<Rightarrow> string \<Rightarrow> real \<Rightarrow> real" where
  "calculatePointsSavings Number points cash =
     Math_min (pointsNum Number points * 0.005) (cash * 0.8)"

text \<open>The effect of \<open>HotelSelector\<close>: the argument it passes to \<open>onCostUpdate\<close>.\<close>

definition hotel_cost ::
  "(string \<Rightarrow> js_date) \<Rightarrow> (string \<Rightarrow> real option) \<Rightarrow> property list \<Rightarrow> hotel_details \<Rightarrow> cost" where
  "hotel_cost Date Number expandedHiltonProperties d =
     (case selectedProperty expandedHiltonProperties d of
        Some p \<Rightarrow>
          let cash = calculateCashPrice Date (Some p) (prop_basePrice p)
                       (details_checkIn d) (details_checkOut d) (details_rooms d)
          in \<lparr>cashPrice = cash,
              pointsSavings = calculatePointsSavings Number (details_points d) cash\<rparr>
      | None \<Rightarrow> \<lparr>cashPrice = 0, pointsSavings = 0\<rparr>)"

section \<open>Prices that are not numbers\<close>

text \<open>
  Two inputs make a price \<open>NaN\<close>, which a real cannot hold. The functions of this section
  return \<open>None\<close> where the prices of the source are \<open>NaN\<close>, and the result of the engines
  above everywhere else.

  The member names that every object inherits from \<open>Object.prototype\<close>. Under such a name
  \<open>rental.categories[details.category]\<close> is a function or an object: it is truthy, so that
  \<open>|| 1\<close> keeps it, and \<open>rental.basePrice\<close> times it is \<open>NaN\<close>, as is every later product,
  sum, \<open>Math.min\<close> and \<open>Math.round\<close>.
\<close>

definition Object_prototype_members :: "string list" where
  "Object_prototype_members =
     [''constructor'', ''hasOwnProperty'', ''isPrototypeOf'', ''propertyIsEnumerable'',
      ''toLocaleString'', ''toString'', ''valueOf'', ''__proto__'', ''__defineGetter__'',
      ''__defineSetter__'', ''__lookupGetter__'', ''__lookupSetter__'']"

definition costs_or_NaN :: "CarRental list \<Rightarrow> car_details \<Rightarrow> real \<Rightarrow> car_cost option" where
  "costs_or_NaN carRentals d points =
     (if details_company d = [] \<or> details_days d \<le> 0 then Some zero_cost
      else
        case find (\<lambda>r. company r = details_company d) carRentals of
          None \<Rightarrow> Some zero_cost
        | Some rental \<Rightarrow>
            if category_lookup (categories rental) (details_category d) = None
               \<and> details_category d \<in> set Object_prototype_members
            then None
            else Some (costs carRentals d points))"

text \<open>
  \<open>new Date(s)\<close> for a string that does not parse is an invalid date, whose \<open>getTime()\<close>
  and \<open>getMonth()\<close> are \<open>NaN\<close>. Then \<open>nights\<close> is \<open>NaN\<close>, \<open>nights <= 0\<close> is false, and
  \<open>roomCost\<close> and the fees, products with \<open>nights\<close>, are \<open>NaN\<close>, as are the sum that
  \<open>calculateCashPrice\<close> returns and the \<open>Math.min\<close> of \<open>calculatePointsSavings\<close>. The
  constructor is \<open>new_Date\<close> here, with \<open>None\<close> for an invalid date.
\<close>

definition valid_Date :: "(string \<Rightarrow> js_date option) \<Rightarrow> string \<Rightarrow> js_date" where
  "valid_Date new_Date s =
     (case new_Date s of Some date \<Rightarrow> date | None \<Rightarrow> \<lparr>getTime = 0, getMonth = 0\<rparr>)"

definition calculateCashPrice_or_NaN ::
  "(string \<Rightarrow> js_date option) \<Rightarrow> property option \<Rightarrow> real \<Rightarrow> string \<Rightarrow> string \<Rightarrow> real
     \<Rightarrow> real option" where
  "calculateCashPrice_or_NaN new_Date sel base checkIn checkOut rooms =
     (if checkIn = [] \<or> checkOut = [] then Some 0
      else if new_Date checkIn = None \<or> new_Date checkOut = None then None
      else Some (calculateCashPrice (valid_Date new_Date) sel base checkIn checkOut rooms))"

definition hotel_cost_or_NaN ::
  "(string \<Rightarrow> js_date option) \<Rightarrow> (string \<Rightarrow> real option) \<Rightarrow> property list \<Rightarrow> hotel_details
     \<Rightarrow> cost option" where
  "hotel_cost_or_NaN new_Date Number expandedHiltonProperties d =
     (case selectedProperty expandedHiltonProperties d of
        Some p \<Rightarrow>
          (case calculateCashPrice_or_NaN new_Date (Some p) (prop_basePrice p)
                  (details_checkIn d) (details_checkOut d) (details_rooms d) of
             Some cash \<Rightarrow>
               Some \<lparr>cashPrice = cash,
                     pointsSavings = calculatePointsSavings Number (details_points d) cash\<rparr>
           | None \<Rightarrow> None)
      | None \<Rightarrow> Some \<lparr>cashPrice = 0, pointsSavings = 0\<rparr>)"

section \<open>The reference formulas of the specification\<close>


text \<open>The length discount of the car rental: 15% from 7 days, 10% from 3 days.\<close>

definition ref_discount :: "real \<Rightarrow> real" where
  "ref_discount days = (if days \<ge> 7 then 0.15 else if days \<ge> 3 then 0.10 else 0)"

text \<open>
  The cash price of a rental before rounding, from the base price \<open>P\<close>, the category
  multiplier \<open>m\<close> and the number of days.
\<close>

definition ref_rawCashPrice :: "real \<Rightarrow> real \<Rightarrow> real \<Rightarrow> real" where
  "ref_rawCashPrice P m days =
     (let dailyRate = P * m;
          baseRental = dailyRate * days;
          fees = 15 * days + 25 + 8.50 + 12;
          subtotal = baseRental * (1 - ref_discount days) + fees;
          taxes = subtotal * 0.0825 + baseRental * 0.115
      in subtotal + taxes)"

text \<open>The allowlist of major cities, the hotel fees and the hotel taxes.\<close>

definition major_cities :: "string set" where
  "major_cities = {''New York'', ''Los Angeles'', ''Chicago'', ''Miami'', ''Las Vegas''}"

definition ref_hotel_fees :: "string list \<Rightarrow> string \<Rightarrow> real \<Rightarrow> real \<Rightarrow> real" where
  "ref_hotel_fees amenities city nights rooms =
     (10 + 15
      + (if ''Pool'' \<in> set amenities \<or> ''Spa Services'' \<in> set amenities then 35 else 0)
      + (if city \<in> major_cities then 20 else 0)) * nights * rooms"

definition ref_hotel_taxes :: "string \<Rightarrow> real \<Rightarrow> real" where
  "ref_hotel_taxes city roomCost =
     roomCost * 0.145 + roomCost * 0.035 + roomCost * 0.01
     + (if city \<in> major_cities then roomCost * 0.02 else 0)"

subsection \<open>Tables without negative prices\<close>

text \<open>A rental company whose base price and category multipliers are all non-negative.\<close>

definition nonneg_rental :: "CarRental \<Rightarrow> bool" where
  "nonneg_rental r \<longleftrightarrow>
     0 \<le> basePrice r \<and> 0 \<le> economy (categories r) \<and> 0 \<le> midsize (categories r)
     \<and> 0 \<le> luxury (categories r) \<and> 0 \<le> suv (categories r)"

section \<open>Sample inputs\<close>

text \<open>
  Concrete tables and selections on which the theorems below are instantiated.
\<close>

definition sample_hertz :: CarRental where
  "sample_hertz = \<lparr>company = ''Hertz'', basePrice = 40,
     categories = \<lparr>economy = 1, midsize = 1.3, luxury = 2, suv = 1.6\<rparr>\<rparr>"

definition sample_budget :: CarRental where
  "sample_budget = \<lparr>company = ''Budget'', basePrice = 10,
     categories = \<lparr>economy = 1, midsize = 1.2, luxury = 1.8, suv = 1.5\<rparr>\<rparr>"

definition sample_carRentals :: "CarRental list" where
  "sample_carRentals = [sample_hertz, sample_budget]"

definition sample_rental :: car_details where
  "sample_rental =
     \<lparr>details_company = ''Hertz'', details_category = ''economy'', details_days = 1\<rparr>"


definition sample_no_days :: car_details where
  "sample_no_days =
     \<lparr>details_company = ''Hertz'', details_category = ''economy'', details_days = 0\<rparr>"

definition sample_budget_rental :: car_details where
  "sample_budget_rental =
     \<lparr>details_company = ''Budget'', details_category = ''economy'', details_days = 1\<rparr>"


text \<open>
  Three dates of one June, at midnight UTC, as a runtime in the UTC time zone reads them,
  a constructor that parses these three strings and no other, and the decimal strings the
  samples use.
\<close>

definition sample_Date :: "string \<Rightarrow> js_date" where
  "sample_Date s =
     (if s = ''2024-06-10'' then \<lparr>getTime = 1717977600000, getMonth = 5\<rparr>
      else if s = ''2024-06-13'' then \<lparr>getTime = 1718236800000, getMonth = 5\<rparr>
      else \<lparr>getTime = 1717804800000, getMonth = 5\<rparr>)"

definition sample_new_Date :: "string \<Rightarrow> js_date option" where
  "sample_new_Date s =
     (if s = ''2024-06-10'' \<or> s = ''2024-06-13'' \<or> s = ''2024-06-08''
      then Some (sample_Date s) else None)"

definition sample_Number :: "string \<Rightarrow> real option" where
  "sample_Number s =
     (if s = ''50000'' then Some 50000
      else if s = ''-1000'' then Some (- 1000)
      else if s = [] then Some 0
      else None)"

definition sample_nyc :: property where
  "sample_nyc = \<lparr>prop_id = ''NYCHH'', prop_brandId = ''hilton'', prop_basePrice = 250,
     prop_city = ''New York'', prop_amenities = [''WiFi'', ''Pool'']\<rparr>"

definition sample_austin :: property where
  "sample_austin = \<lparr>prop_id = ''AUSGI'', prop_brandId = ''garden-inn'', prop_basePrice = 101,
     prop_city = ''Austin'', prop_amenities = [''WiFi'', ''Restaurant'']\<rparr>"

definition sample_properties :: "property list" where
  "sample_properties = [sample_nyc, sample_austin]"

definition sample_stay :: hotel_details where
  "sample_stay = \<lparr>details_brand = [], details_property = ''AUSGI'',
     details_checkIn = ''2024-06-10'', details_checkOut = ''2024-06-13'',
     details_rooms = 1, details_points = ''50000''\<rparr>"

definition sample_nyc_stay :: hotel_details where
  "sample_nyc_stay = \<lparr>details_brand = [], details_property = ''NYCHH'',
     details_checkIn = ''2024-06-10'', details_checkOut = ''2024-06-13'',
     details_rooms = 2, details_points = ''50000''\<rparr>"

definition sample_negative_rooms :: hotel_details where
  "sample_negative_rooms = \<lparr>details_brand = [], details_property = ''AUSGI'',
     details_checkIn = ''2024-06-10'', details_checkOut = ''2024-06-13'',
     details_rooms = - 1, details_points = ''50000''\<rparr>"

definition sample_reversed_stay :: hotel_details where
  "sample_reversed_stay = \<lparr>details_brand = [], details_property = ''AUSGI'',
     details_checkIn = ''2024-06-10'', details_checkOut = ''2024-06-08'',
     details_rooms = 1, details_points = ''50000''\<rparr>"

definition sample_debt_stay :: hotel_details where
  "sample_debt_stay = \<lparr>details_brand = [], details_property = ''AUSGI'',
     details_checkIn = ''2024-06-10'', details_checkOut = ''2024-06-13'',
     details_rooms = 1, details_points = ''-1000''\<rparr>"

section \<open>Rounding to two decimals\<close>

lemma round2_mono: "a \<le> b \<Longrightarrow> round2 a \<le> round2 b"
  unfolding round2_def Math_round_def
  by (intro divide_right_mono of_int_le_iff[THEN iffD2] floor_mono) simp_all

lemma round2_nonneg: "0 \<le> a \<Longrightarrow> 0 \<le> round2 a"
  using round2_mono [of 0 a] by (simp add: round2_def Math_round_def)

lemma round2_upper: "round2 a \<le> a + 0.005"
proof -
  have "real_of_int \<lfloor>a * 100 + 1 / 2\<rfloor> \<le> a * 100 + 1 / 2"
    by (rule of_int_floor_le)
  then show ?thesis
    unfolding round2_def Math_round_def by simp
qed

lemma round2_lower: "a - 0.005 < round2 a"
proof -
  have "a * 100 + 1 / 2 < real_of_int \<lfloor>a * 100 + 1 / 2\<rfloor> + 1"
    by (rule real_of_int_floor_add_one_gt)
  then have "a * 100 - 1 / 2 < real_of_int \<lfloor>a * 100 + 1 / 2\<rfloor>"
    by linarith
  then have "(a * 100 - 1 / 2) / 100 < real_of_int \<lfloor>a * 100 + 1 / 2\<rfloor> / 100"
    by (simp only: divide_strict_right_mono zero_less_numeral)
  then show ?thesis
    unfolding round2_def Math_round_def by simp
qed

lemma round2_near: "\<bar>round2 a - a\<bar> \<le> 0.005"
  using round2_upper [of a] round2_lower [of a] by (intro abs_leI) linarith+

lemma round2_cents: "round2 a * 100 \<in> \<int>"
  by (simp add: round2_def)


section \<open>The branches of the two engines\<close>

lemma costs_found:
  assumes "details_company d \<noteq> []" and "0 < details_days d"
    and "find (\<lambda>r. company r = details_company d) carRentals = Some rental"
  shows "cashPrice (costs carRentals d points) =
           round2 (ref_rawCashPrice (basePrice rental)
                     (categoryMultiplier rental (details_category d)) (details_days d))"
    and "pointsSavings (costs carRentals d points) =
           round2 (Math_min (points * 0.008)
                     (ref_rawCashPrice (basePrice rental)
                        (categoryMultiplier rental (details_category d)) (details_days d) * 0.5))"
  using assms by (simp_all add: costs_def ref_rawCashPrice_def ref_discount_def Let_def)

lemma costs_zero:
  assumes "details_company d = [] \<or> details_days d \<le> 0
           \<or> find (\<lambda>r. company r = details_company d) carRentals = None"
  shows "costs carRentals d points = zero_cost"
  using assms by (auto simp add: costs_def)

lemma costs_or_NaN_number:
  assumes "details_category d \<notin> set Object_prototype_members"
  shows "costs_or_NaN carRentals d points = Some (costs carRentals d points)"
  using assms by (simp add: costs_or_NaN_def costs_def split: option.splits)

lemma isMajorCity_iff: "isMajorCity (Some p) \<longleftrightarrow> prop_city p \<in> major_cities"
  by (auto simp add: isMajorCity_def major_cities_def)

lemma hasResortFee_iff:
  "hasResortFee (Some p) \<longleftrightarrow>
     ''Pool'' \<in> set (prop_amenities p) \<or> ''Spa Services'' \<in> set (prop_amenities p)"
  by (simp add: hasResortFee_def)

lemma hotel_cost_selected:
  assumes "selectedProperty props d = Some p"
  shows "cashPrice (hotel_cost Date Number props d) =
           calculateCashPrice Date (Some p) (prop_basePrice p)
             (details_checkIn d) (details_checkOut d) (details_rooms d)"
    and "pointsSavings (hotel_cost Date Number props d) =
           calculatePointsSavings Number (details_points d)
             (cashPrice (hotel_cost Date Number props d))"
  using assms by (simp_all add: hotel_cost_def Let_def)

lemma hotel_cost_or_NaN_number:
  assumes "details_checkIn d = [] \<or> details_checkOut d = []
           \<or> (new_Date (details_checkIn d) \<noteq> None \<and> new_Date (details_checkOut d) \<noteq> None)"
  shows "hotel_cost_or_NaN new_Date Number props d
           = Some (hotel_cost (valid_Date new_Date) Number props d)"
  using assms
  by (auto simp add: hotel_cost_or_NaN_def hotel_cost_def calculateCashPrice_or_NaN_def
      calculateCashPrice_def Let_def split: option.splits)

lemma selectedProperty_in_set:
  "selectedProperty props d = Some p \<Longrightarrow> p \<in> set props"
  by (auto simp add: selectedProperty_def find_Some_iff split: if_splits)

section \<open>The sample inputs, evaluated\<close>

lemmas car_engine = costs_def categoryMultiplier_def category_lookup_def round2_def
  Math_round_def Math_min_def Let_def

lemmas hotel_engine = hotel_cost_def selectedProperty_def calculateCashPrice_def
  nights_between_def Math_ceil_def Let_def seasonalRate_def lengthDiscount_def
  isMajorCity_def hasResortFee_def calculatePointsSavings_def pointsNum_def Math_min_def
  HOTEL_FEES_resortFee_def HOTEL_FEES_serviceFee_def HOTEL_FEES_amenityFee_def
  HOTEL_FEES_destinationFee_def TAX_RATES_roomTax_def TAX_RATES_occupancyTax_def
  TAX_RATES_cityTax_def TAX_RATES_tourismLevy_def SEASONAL_RATES_peak_def
  SEASONAL_RATES_shoulder_def SEASONAL_RATES_offPeak_def

lemmas sample_car_tables = sample_carRentals_def sample_hertz_def sample_budget_def

lemmas sample_hotel_tables = sample_properties_def sample_nyc_def sample_austin_def
  sample_Date_def sample_Number_def

lemma sample_rental_found:
  "details_company sample_rental \<noteq> []"
  "find (\<lambda>r. company r = details_company sample_rental) sample_carRentals = Some sample_hertz"
  "0 < details_days sample_rental"
  by (simp_all add: sample_rental_def sample_car_tables)


lemma sample_budget_rental_found:
  "details_company sample_budget_rental \<noteq> []"
  "find (\<lambda>r. company r = details_company sample_budget_rental) sample_carRentals
     = Some sample_budget"
  "0 < details_days sample_budget_rental"
  by (simp_all add: sample_budget_rental_def sample_car_tables)

lemma sample_stay_selected:
  "selectedProperty sample_properties sample_stay = Some sample_austin"
  "details_checkIn sample_stay \<noteq> []"
  "details_checkOut sample_stay \<noteq> []"
  "nights_between sample_Date (details_checkIn sample_stay) (details_checkOut sample_stay) = 3"
  "sample_Number (details_points sample_stay) = Some 50000"
  by (simp_all add: selectedProperty_def sample_hotel_tables sample_stay_def
      nights_between_def Math_ceil_def)

lemma sample_nyc_stay_selected:
  "selectedProperty sample_properties sample_nyc_stay = Some sample_nyc"
  "details_checkIn sample_nyc_stay \<noteq> []"
  "details_checkOut sample_nyc_stay \<noteq> []"
  "nights_between sample_Date (details_checkIn sample_nyc_stay)
     (details_checkOut sample_nyc_stay) = 3"
  by (simp_all add: selectedProperty_def sample_hotel_tables sample_nyc_stay_def
      nights_between_def Math_ceil_def)

lemma sample_negative_rooms_selected:
  "selectedProperty sample_properties sample_negative_rooms = Some sample_austin"
  "details_rooms sample_negative_rooms = - 1"
  "nights_between sample_Date (details_checkIn sample_negative_rooms)
     (details_checkOut sample_negative_rooms) = 3"
  by (simp_all add: selectedProperty_def sample_hotel_tables sample_negative_rooms_def
      nights_between_def Math_ceil_def)

lemma sample_debt_stay_selected:
  "selectedProperty sample_properties sample_debt_stay = Some sample_austin"
  "nights_between sample_Date (details_checkIn sample_debt_stay)
     (details_checkOut sample_debt_stay) = 3"
  "sample_Number (details_points sample_debt_stay) = Some (- 1000)"
  by (simp_all add: selectedProperty_def sample_hotel_tables sample_debt_stay_def
      nights_between_def Math_ceil_def)

lemma sample_rental_costs:
  "cashPrice (costs sample_carRentals sample_rental 7087) = 113.39"
  "pointsSavings (costs sample_carRentals sample_rental 7087) = 56.70"
  "cashPrice (costs sample_carRentals sample_rental (- 1000)) = 113.39"
  "pointsSavings (costs sample_carRentals sample_rental (- 1000)) = - 8"
  by (simp_all add: car_engine sample_car_tables sample_rental_def)

lemma sample_budget_rental_costs:
  "cashPrice (costs sample_carRentals sample_budget_rental 10000) = 77.47"
  "pointsSavings (costs sample_carRentals sample_budget_rental 10000) = 38.73"
  by (simp_all add: car_engine sample_car_tables sample_budget_rental_def)

lemma sample_negative_rooms_costs:
  "cashPrice (hotel_cost sample_Date sample_Number sample_properties sample_negative_rooms)
     = - 554.5581"
  by (simp add: hotel_engine sample_hotel_tables sample_negative_rooms_def)

lemma sample_debt_stay_costs:
  "cashPrice (hotel_cost sample_Date sample_Number sample_properties sample_debt_stay)
     = 554.5581"
  "pointsSavings (hotel_cost sample_Date sample_Number sample_properties sample_debt_stay)
     = - 5"
  by (simp_all add: hotel_engine sample_hotel_tables sample_debt_stay_def)

section \<open>Car rental: the cash price\<close>




section \<open>Hotel: the cash price\<close>

text \<open>
  Claim C2. For every selected property and dates that give a positive number of nights,
  the reported \<open>cashPrice\<close> is, with no rounding, room cost plus fees plus taxes: the room
  cost is base price times seasonal multiplier times length multiplier times nights times
  rooms; the fees are 10 + 15, plus 35 if the amenities include Pool or Spa Services, plus
  20 in a major city, per night and room; the taxes are 14.5%, 3.5% and 1.0% of the room
  cost, plus 2.0% of it in a major city.
\<close>

theorem hotel_cashPrice_reference:
  assumes "selectedProperty props d = Some p"
    and "details_checkIn d \<noteq> []" and "details_checkOut d \<noteq> []"
    and "0 < nights_between Date (details_checkIn d) (details_checkOut d)"
  shows "cashPrice (hotel_cost Date Number props d) =
           (let nights = real_of_int (nights_between Date (details_checkIn d) (details_checkOut d));
                rooms = details_rooms d;
                roomCost = prop_basePrice p
                           * seasonalRate (getMonth (Date (details_checkIn d)))
                           * lengthDiscount (nights_between Date (details_checkIn d) (details_checkOut d))
                           * nights * rooms
            in roomCost
               + ref_hotel_fees (prop_amenities p) (prop_city p) nights rooms
               + ref_hotel_taxes (prop_city p) roomCost)"
  using assms
  by (simp add: hotel_cost_selected calculateCashPrice_def Let_def isMajorCity_iff
      hasResortFee_iff ref_hotel_fees_def ref_hotel_taxes_def
      HOTEL_FEES_resortFee_def HOTEL_FEES_serviceFee_def HOTEL_FEES_amenityFee_def
      HOTEL_FEES_destinationFee_def TAX_RATES_roomTax_def TAX_RATES_occupancyTax_def
      TAX_RATES_cityTax_def TAX_RATES_tourismLevy_def)

text \<open>
  Three nights from 10 June, in a city off the allowlist without resort amenities
  (554.5581, which is not a whole number of cents) and two rooms in New York with a pool.
\<close>

theorem hotel_cashPrice_reference_witness:
  "selectedProperty sample_properties sample_stay = Some sample_austin
   \<and> details_checkIn sample_stay \<noteq> [] \<and> details_checkOut sample_stay \<noteq> []
   \<and> 0 < nights_between sample_Date (details_checkIn sample_stay) (details_checkOut sample_stay)
   \<and> cashPrice (hotel_cost sample_Date sample_Number sample_properties sample_stay)
       = 101 * 1.4 * 0.95 * 3 * 1 + (10 + 15) * 3 * 1
         + (101 * 1.4 * 0.95 * 3 * 1) * (0.145 + 0.035 + 0.01)
   \<and> selectedProperty sample_properties sample_nyc_stay = Some sample_nyc
   \<and> cashPrice (hotel_cost sample_Date sample_Number sample_properties sample_nyc_stay)
       = 250 * 1.4 * 0.95 * 3 * 2 + (10 + 15 + 35 + 20) * 3 * 2
         + (250 * 1.4 * 0.95 * 3 * 2) * (0.145 + 0.035 + 0.01 + 0.02)"
proof -
  have a: "0 < nights_between sample_Date (details_checkIn sample_stay)
                 (details_checkOut sample_stay)"
    and n: "0 < nights_between sample_Date (details_checkIn sample_nyc_stay)
                 (details_checkOut sample_nyc_stay)"
    by (simp_all add: sample_stay_selected sample_nyc_stay_selected)
  note austin = hotel_cashPrice_reference [OF sample_stay_selected(1-3) a,
      where Number = sample_Number]
  note nyc = hotel_cashPrice_reference [OF sample_nyc_stay_selected(1-3) n,
      where Number = sample_Number]
  have "cashPrice (hotel_cost sample_Date sample_Number sample_properties sample_stay)
       = 101 * 1.4 * 0.95 * 3 * 1 + (10 + 15) * 3 * 1
         + (101 * 1.4 * 0.95 * 3 * 1) * (0.145 + 0.035 + 0.01)"
    unfolding austin
    by (simp add: sample_stay_selected sample_stay_def sample_austin_def sample_Date_def
        seasonalRate_def lengthDiscount_def SEASONAL_RATES_peak_def ref_hotel_fees_def
        ref_hotel_taxes_def major_cities_def Let_def nights_between_def Math_ceil_def)
  moreover have "cashPrice (hotel_cost sample_Date sample_Number sample_properties sample_nyc_stay)
       = 250 * 1.4 * 0.95 * 3 * 2 + (10 + 15 + 35 + 20) * 3 * 2
         + (250 * 1.4 * 0.95 * 3 * 2) * (0.145 + 0.035 + 0.01 + 0.02)"
    unfolding nyc
    by (simp add: sample_nyc_stay_selected sample_nyc_stay_def sample_nyc_def sample_Date_def
        seasonalRate_def lengthDiscount_def SEASONAL_RATES_peak_def ref_hotel_fees_def
        ref_hotel_taxes_def major_cities_def Let_def nights_between_def Math_ceil_def)
  ultimately show ?thesis
    using sample_stay_selected(1-3) a sample_nyc_stay_selected(1) by simp
qed

section \<open>The cash price is not negative when prices and rooms are not\<close>

lemma seasonalRate_pos: "0 < seasonalRate m"
  by (simp add: seasonalRate_def SEASONAL_RATES_peak_def SEASONAL_RATES_shoulder_def
      SEASONAL_RATES_offPeak_def)

lemma lengthDiscount_pos: "0 < lengthDiscount n"
  by (simp add: lengthDiscount_def)

lemma categoryMultiplier_nonneg:
  "nonneg_rental r \<Longrightarrow> 0 \<le> categoryMultiplier r k"
  by (simp add: nonneg_rental_def categoryMultiplier_def category_lookup_def)

lemma ref_rawCashPrice_nonneg:
  assumes "0 \<le> P" and "0 \<le> m" and "0 < days"
  shows "0 \<le> ref_rawCashPrice P m days"
proof -
  have b: "0 \<le> P * m * days"
    using assms by simp
  have d: "0 \<le> 1 - ref_discount days"
    by (simp add: ref_discount_def)
  have bd: "0 \<le> P * m * days * (1 - ref_discount days)"
    using b d by (rule mult_nonneg_nonneg)
  have s: "0 \<le> P * m * days * (1 - ref_discount days) + (15 * days + 25 + 8.50 + 12)"
    using bd assms(3) by simp
  have gen: "0 \<le> x + (x * 0.0825 + y * 0.115)" if "0 \<le> x" and "0 \<le> y" for x y :: real
    using that by simp
  show ?thesis
    unfolding ref_rawCashPrice_def Let_def using s b by (rule gen)
qed

lemma costs_cashPrice_nonneg:
  assumes "\<forall>r\<in>set carRentals. nonneg_rental r"
  shows "0 \<le> cashPrice (costs carRentals d points)"
proof (cases "details_company d = [] \<or> details_days d \<le> 0
              \<or> find (\<lambda>r. company r = details_company d) carRentals = None")
  case True
  then show ?thesis
    by (simp add: costs_zero zero_cost_def)
next
  case False
  then obtain rental where f: "find (\<lambda>r. company r = details_company d) carRentals = Some rental"
    by auto
  then have "rental \<in> set carRentals"
    by (auto simp add: find_Some_iff)
  with assms have n: "nonneg_rental rental"
    by blast
  have "0 \<le> ref_rawCashPrice (basePrice rental)
               (categoryMultiplier rental (details_category d)) (details_days d)"
    using n False by (intro ref_rawCashPrice_nonneg categoryMultiplier_nonneg)
      (simp_all add: nonneg_rental_def)
  then show ?thesis
    using False f by (simp add: costs_found round2_nonneg)
qed

lemma calculateCashPrice_nonneg:
  assumes "0 \<le> base" and "0 \<le> rooms"
  shows "0 \<le> calculateCashPrice Date sel base checkIn checkOut rooms"
proof (cases "checkIn = [] \<or> checkOut = [] \<or> nights_between Date checkIn checkOut \<le> 0")
  case True
  then show ?thesis
    by (auto simp add: calculateCashPrice_def Let_def)
next
  case False
  define n where "n = nights_between Date checkIn checkOut"
  define rc where "rc = base * seasonalRate (getMonth (Date checkIn)) * lengthDiscount n
                        * real_of_int n * rooms"
  have npos: "0 < n"
    using False by (simp add: n_def)
  have rc: "0 \<le> rc"
    unfolding rc_def using assms npos seasonalRate_pos [of "getMonth (Date checkIn)"]
      lengthDiscount_pos [of n]
    by (intro mult_nonneg_nonneg) simp_all
  have fee: "0 \<le> ((if hasResortFee sel then HOTEL_FEES_resortFee else 0)
                   + HOTEL_FEES_serviceFee + HOTEL_FEES_amenityFee
                   + (if isMajorCity sel then HOTEL_FEES_destinationFee else 0))
                  * real_of_int n * rooms"
    using assms npos
    by (intro mult_nonneg_nonneg)
      (simp_all add: HOTEL_FEES_resortFee_def HOTEL_FEES_serviceFee_def
        HOTEL_FEES_amenityFee_def HOTEL_FEES_destinationFee_def)
  have taxes: "0 \<le> rc * TAX_RATES_roomTax" "0 \<le> rc * TAX_RATES_occupancyTax"
    "0 \<le> (if isMajorCity sel then rc * TAX_RATES_cityTax else 0)"
    "0 \<le> rc * TAX_RATES_tourismLevy"
    using rc by (simp_all add: TAX_RATES_roomTax_def TAX_RATES_occupancyTax_def
        TAX_RATES_cityTax_def TAX_RATES_tourismLevy_def)
  have "calculateCashPrice Date sel base checkIn checkOut rooms =
          rc + ((if hasResortFee sel then HOTEL_FEES_resortFee else 0)
                   + HOTEL_FEES_serviceFee + HOTEL_FEES_amenityFee
                   + (if isMajorCity sel then HOTEL_FEES_destinationFee else 0))
                  * real_of_int n * rooms
             + rc * TAX_RATES_roomTax + rc * TAX_RATES_occupancyTax
             + (if isMajorCity sel then rc * TAX_RATES_cityTax else 0)
             + rc * TAX_RATES_tourismLevy"
    using False by (simp add: calculateCashPrice_def Let_def n_def rc_def)
  then show ?thesis
    using rc fee taxes by linarith
qed

lemma hotel_cost_cashPrice_nonneg:
  assumes "\<forall>p\<in>set props. 0 \<le> prop_basePrice p" and "0 \<le> details_rooms stay"
  shows "0 \<le> cashPrice (hotel_cost Date Number props stay)"
proof (cases "selectedProperty props stay")
  case None
  then show ?thesis by (simp add: hotel_cost_def)
next
  case (Some p)
  then have "0 \<le> prop_basePrice p"
    using assms(1) selectedProperty_in_set by blast
  then show ?thesis
    using Some assms(2) by (simp add: hotel_cost_selected calculateCashPrice_nonneg)
qed

text \<open>
  Claim C3, as amended. The car rental engine returns a \<open>cashPrice\<close> that is a number and
  not negative for every company, number of days and points balance, and for every
  category that is not a member name inherited from \<open>Object.prototype\<close>, when no base
  price and no category multiplier of the table is negative. The hotel engine reports a
  \<open>cashPrice\<close> that is a number and not negative for every selection and points string, and
  for dates that are missing or that the runtime parses, when no base price of the table
  is negative and the number of rooms is not negative; the number of rooms is not
  validated. The numbers of days, points and rooms are reals: \<open>NaN\<close> and the infinities are
  not among them.
\<close>

theorem cashPrice_nonneg_validated:
  "((\<forall>r\<in>set carRentals. nonneg_rental r)
      \<and> details_category car \<notin> set Object_prototype_members \<longrightarrow>
      (\<exists>c. costs_or_NaN carRentals car points = Some c \<and> 0 \<le> cashPrice c))
   \<and> ((\<forall>p\<in>set props. 0 \<le> prop_basePrice p) \<and> 0 \<le> details_rooms stay
        \<and> (details_checkIn stay = [] \<or> details_checkOut stay = []
             \<or> (new_Date (details_checkIn stay) \<noteq> None
                 \<and> new_Date (details_checkOut stay) \<noteq> None)) \<longrightarrow>
      (\<exists>c. hotel_cost_or_NaN new_Date Number props stay = Some c \<and> 0 \<le> cashPrice c))"
proof (intro conjI impI)
  assume a: "(\<forall>r\<in>set carRentals. nonneg_rental r)
      \<and> details_category car \<notin> set Object_prototype_members"
  then have "costs_or_NaN carRentals car points = Some (costs carRentals car points)"
    by (simp add: costs_or_NaN_number)
  moreover have "0 \<le> cashPrice (costs carRentals car points)"
    using a by (simp add: costs_cashPrice_nonneg)
  ultimately show "\<exists>c. costs_or_NaN carRentals car points = Some c \<and> 0 \<le> cashPrice c"
    by blast
next
  assume a: "(\<forall>p\<in>set props. 0 \<le> prop_basePrice p) \<and> 0 \<le> details_rooms stay
        \<and> (details_checkIn stay = [] \<or> details_checkOut stay = []
             \<or> (new_Date (details_checkIn stay) \<noteq> None
                 \<and> new_Date (details_checkOut stay) \<noteq> None))"
  then have "hotel_cost_or_NaN new_Date Number props stay
               = Some (hotel_cost (valid_Date new_Date) Number props stay)"
    by (intro hotel_cost_or_NaN_number) blast
  moreover have "0 \<le> cashPrice (hotel_cost (valid_Date new_Date) Number props stay)"
    using a by (intro hotel_cost_cashPrice_nonneg) simp_all
  ultimately show "\<exists>c. hotel_cost_or_NaN new_Date Number props stay = Some c
                         \<and> 0 \<le> cashPrice c"
    by blast
qed

theorem cashPrice_nonneg_validated_witness:
  "list_all nonneg_rental sample_carRentals
   \<and> details_category sample_rental \<notin> set Object_prototype_members
   \<and> list_all (\<lambda>p. 0 \<le> prop_basePrice p) sample_properties
   \<and> 0 \<le> details_rooms sample_stay
   \<and> sample_new_Date (details_checkIn sample_stay) \<noteq> None
   \<and> sample_new_Date (details_checkOut sample_stay) \<noteq> None
   \<and> (\<exists>c. costs_or_NaN sample_carRentals sample_rental (- 1000) = Some c
          \<and> 0 \<le> cashPrice c)
   \<and> (\<exists>c. hotel_cost_or_NaN sample_new_Date sample_Number sample_properties sample_stay
            = Some c \<and> 0 \<le> cashPrice c)"
proof -
  have c: "list_all nonneg_rental sample_carRentals"
    by (simp add: sample_carRentals_def sample_hertz_def sample_budget_def nonneg_rental_def)
  have k: "details_category sample_rental \<notin> set Object_prototype_members"
    by (simp add: sample_rental_def Object_prototype_members_def)
  have h: "list_all (\<lambda>p. 0 \<le> prop_basePrice p) sample_properties"
    by (simp add: sample_properties_def sample_nyc_def sample_austin_def)
  have r: "0 \<le> details_rooms sample_stay"
    and i: "sample_new_Date (details_checkIn sample_stay) \<noteq> None"
    and o: "sample_new_Date (details_checkOut sample_stay) \<noteq> None"
    by (simp_all add: sample_stay_def sample_new_Date_def)
  show ?thesis
    using c k h r i o
      cashPrice_nonneg_validated [of sample_carRentals sample_rental "- 1000"
        sample_properties sample_stay sample_new_Date sample_Number]
    by (simp add: list_all_iff)
qed

text \<open>
  Claim C3 as it is stated fails for a negative room count: minus one room for three
  nights in June, on dates that parse, at base price 101 has the cash price - 554.5581.
\<close>

theorem negative_rooms_counterexample:
  "selectedProperty sample_properties sample_negative_rooms = Some sample_austin
   \<and> details_rooms sample_negative_rooms = - 1
   \<and> nights_between sample_Date (details_checkIn sample_negative_rooms)
        (details_checkOut sample_negative_rooms) = 3
   \<and> cashPrice (hotel_cost sample_Date sample_Number sample_properties sample_negative_rooms)
       = - 554.5581
   \<and> \<not> 0 \<le> cashPrice (hotel_cost sample_Date sample_Number sample_properties
                sample_negative_rooms)
   \<and> sample_new_Date (details_checkIn sample_negative_rooms) \<noteq> None
   \<and> sample_new_Date (details_checkOut sample_negative_rooms) \<noteq> None
   \<and> map_option cashPrice
        (hotel_cost_or_NaN sample_new_Date sample_Number sample_properties
           sample_negative_rooms) = Some (- 554.5581)"
proof -
  have "map_option cashPrice
        (hotel_cost_or_NaN sample_new_Date sample_Number sample_properties
           sample_negative_rooms) = Some (- 554.5581)"
    by (simp add: hotel_cost_or_NaN_def calculateCashPrice_or_NaN_def valid_Date_def
        sample_new_Date_def hotel_engine sample_hotel_tables sample_negative_rooms_def)
  moreover have "sample_new_Date (details_checkIn sample_negative_rooms) \<noteq> None"
    and "sample_new_Date (details_checkOut sample_negative_rooms) \<noteq> None"
    by (simp_all add: sample_negative_rooms_def sample_new_Date_def)
  ultimately show ?thesis
    by (simp add: sample_negative_rooms_selected sample_negative_rooms_costs)
qed

section \<open>The caps on the points savings\<close>




text \<open>
  Claim C5. For every hotel input with a property selected, a positive number of nights
  and a points string that is a number \<open>v\<close> not below 0, the reported \<open>pointsSavings\<close> is at
  most \<open>cashPrice * 0.8\<close> and at most \<open>v * 0.005\<close>.
\<close>

theorem hotel_points_cap:
  assumes "selectedProperty props d = Some p"
    and "details_checkIn d \<noteq> []" and "details_checkOut d \<noteq> []"
    and "0 < nights_between Date (details_checkIn d) (details_checkOut d)"
    and "Number (details_points d) = Some v" and "0 \<le> v"
  shows "pointsSavings (hotel_cost Date Number props d)
           \<le> cashPrice (hotel_cost Date Number props d) * 0.8
         \<and> pointsSavings (hotel_cost Date Number props d) \<le> v * 0.005"
proof -
  have n: "pointsNum Number (details_points d) = v"
    using assms(5) by (simp add: pointsNum_def)
  have "pointsSavings (hotel_cost Date Number props d)
          = min (v * 0.005) (cashPrice (hotel_cost Date Number props d) * 0.8)"
    by (simp only: hotel_cost_selected(2) [OF assms(1)] calculatePointsSavings_def
        Math_min_def n)
  then show ?thesis
    by (simp only: min.cobounded1 min.cobounded2 simp_thms)
qed

theorem hotel_points_cap_witness:
  "selectedProperty sample_properties sample_stay = Some sample_austin
   \<and> details_checkIn sample_stay \<noteq> [] \<and> details_checkOut sample_stay \<noteq> []
   \<and> 0 < nights_between sample_Date (details_checkIn sample_stay) (details_checkOut sample_stay)
   \<and> sample_Number (details_points sample_stay) = Some 50000 \<and> (0::real) \<le> 50000
   \<and> pointsSavings (hotel_cost sample_Date sample_Number sample_properties sample_stay)
       \<le> cashPrice (hotel_cost sample_Date sample_Number sample_properties sample_stay) * 0.8
   \<and> pointsSavings (hotel_cost sample_Date sample_Number sample_properties sample_stay)
       \<le> 50000 * 0.005"
  using sample_stay_selected
    hotel_points_cap [of sample_properties sample_stay sample_austin sample_Date
      sample_Number 50000]
  by simp

section \<open>Incomplete selections cost nothing\<close>

text \<open>
  Claim C6. The car rental engine returns \<open>cashPrice = 0\<close> and \<open>pointsSavings = 0\<close> when the
  company is missing or unknown or the days are zero or negative. The hotel engine reports
  \<open>cashPrice = 0\<close> and \<open>pointsSavings = 0\<close>, for a points balance that is not negative, when
  no property is selected, a date is missing, or the nights are zero or negative. Both
  functions are total: no branch of either engine raises.
\<close>

theorem zero_result:
  "(details_company c = [] \<or> find (\<lambda>r. company r = details_company c) carRentals = None
      \<or> details_days c \<le> 0 \<longrightarrow>
      cashPrice (costs carRentals c points) = 0 \<and> pointsSavings (costs carRentals c points) = 0)
   \<and> (0 \<le> pointsNum Number (details_points h)
        \<and> (selectedProperty props h = None \<or> details_checkIn h = [] \<or> details_checkOut h = []
             \<or> nights_between Date (details_checkIn h) (details_checkOut h) \<le> 0) \<longrightarrow>
      cashPrice (hotel_cost Date Number props h) = 0
      \<and> pointsSavings (hotel_cost Date Number props h) = 0)"
proof (intro conjI impI)
  assume "details_company c = [] \<or> find (\<lambda>r. company r = details_company c) carRentals = None
            \<or> details_days c \<le> 0"
  then have "costs carRentals c points = zero_cost"
    by (auto simp add: costs_def)
  then show "cashPrice (costs carRentals c points) = 0"
    and "pointsSavings (costs carRentals c points) = 0"
    by (simp_all add: zero_cost_def)
next
  assume a: "0 \<le> pointsNum Number (details_points h)
        \<and> (selectedProperty props h = None \<or> details_checkIn h = [] \<or> details_checkOut h = []
             \<or> nights_between Date (details_checkIn h) (details_checkOut h) \<le> 0)"
  have z: "calculateCashPrice Date sel b (details_checkIn h) (details_checkOut h) r = 0"
    if "selectedProperty props h \<noteq> None" for sel b r
    using a that by (auto simp add: calculateCashPrice_def Let_def)
  show "cashPrice (hotel_cost Date Number props h) = 0"
    using z by (cases "selectedProperty props h") (simp_all add: hotel_cost_def)
  show "pointsSavings (hotel_cost Date Number props h) = 0"
    using z a
    by (cases "selectedProperty props h")
      (simp_all add: hotel_cost_def calculatePointsSavings_def Math_min_def)
qed

text \<open>A rental of no days, and a stay whose check-out is two days before its check-in.\<close>

theorem zero_result_witness:
  "details_days sample_no_days \<le> 0
   \<and> cashPrice (costs sample_carRentals sample_no_days 7087) = 0
   \<and> pointsSavings (costs sample_carRentals sample_no_days 7087) = 0
   \<and> 0 \<le> pointsNum sample_Number (details_points sample_reversed_stay)
   \<and> nights_between sample_Date (details_checkIn sample_reversed_stay)
        (details_checkOut sample_reversed_stay) = - 2
   \<and> cashPrice (hotel_cost sample_Date sample_Number sample_properties sample_reversed_stay) = 0
   \<and> pointsSavings (hotel_cost sample_Date sample_Number sample_properties sample_reversed_stay) = 0"
proof -
  have a: "details_days sample_no_days \<le> 0"
    by (simp add: sample_no_days_def)
  have b: "0 \<le> pointsNum sample_Number (details_points sample_reversed_stay)"
    by (simp add: pointsNum_def sample_Number_def sample_reversed_stay_def)
  have c: "nights_between sample_Date (details_checkIn sample_reversed_stay)
        (details_checkOut sample_reversed_stay) = - 2"
    by (simp add: nights_between_def Math_ceil_def sample_Date_def sample_reversed_stay_def)
  show ?thesis
    using a b c
      zero_result [of sample_no_days sample_carRentals 7087 sample_Number sample_reversed_stay
        sample_properties sample_Date]
    by simp
qed

section \<open>Hotel: the seasonal and the length multiplier\<close>

text \<open>
  Claim C7. The seasonal multiplier of a check-in whose month, counted from 0, is 5, 6 or 7
  is 1.4; for 2, 3 or 4 it is 1.2; for 11, 0 or 1 it is 0.8; for 8, 9 or 10 it is 1.
\<close>

theorem seasonal_multiplier_by_month:
  "(m = 5 \<or> m = 6 \<or> m = 7 \<longrightarrow> seasonalRate m = 1.4)
   \<and> (m = 2 \<or> m = 3 \<or> m = 4 \<longrightarrow> seasonalRate m = 1.2)
   \<and> (m = 11 \<or> m = 0 \<or> m = 1 \<longrightarrow> seasonalRate m = 0.8)
   \<and> (m = 8 \<or> m = 9 \<or> m = 10 \<longrightarrow> seasonalRate m = 1)"
  by (auto simp add: seasonalRate_def SEASONAL_RATES_peak_def SEASONAL_RATES_shoulder_def
      SEASONAL_RATES_offPeak_def)

theorem seasonal_multiplier_by_month_witness:
  "seasonalRate 5 = 1.4 \<and> seasonalRate 6 = 1.4 \<and> seasonalRate 7 = 1.4
   \<and> seasonalRate 2 = 1.2 \<and> seasonalRate 3 = 1.2 \<and> seasonalRate 4 = 1.2
   \<and> seasonalRate 11 = 0.8 \<and> seasonalRate 0 = 0.8 \<and> seasonalRate 1 = 0.8
   \<and> seasonalRate 8 = 1 \<and> seasonalRate 9 = 1 \<and> seasonalRate 10 = 1"
  using seasonal_multiplier_by_month [of 5] seasonal_multiplier_by_month [of 6]
    seasonal_multiplier_by_month [of 7] seasonal_multiplier_by_month [of 2]
    seasonal_multiplier_by_month [of 3] seasonal_multiplier_by_month [of 4]
    seasonal_multiplier_by_month [of 11] seasonal_multiplier_by_month [of 0]
    seasonal_multiplier_by_month [of 1] seasonal_multiplier_by_month [of 8]
    seasonal_multiplier_by_month [of 9] seasonal_multiplier_by_month [of 10]
  by simp

text \<open>
  Claim C8. For a positive number of nights \<open>n\<close> the length multiplier is 0.85 from 7
  nights, 0.90 from 4 to 6 nights, 0.95 for 2 and 3 nights, and 1 for one night; 2, 4 and 7
  nights are the first of their tiers.
\<close>

theorem length_discount_tiers:
  assumes "0 < n"
  shows "(7 \<le> n \<longrightarrow> lengthDiscount n = 0.85)
         \<and> (4 \<le> n \<and> n < 7 \<longrightarrow> lengthDiscount n = 0.90)
         \<and> (2 \<le> n \<and> n < 4 \<longrightarrow> lengthDiscount n = 0.95)
         \<and> (n = 1 \<longrightarrow> lengthDiscount n = 1)"
  using assms by (simp add: lengthDiscount_def)

theorem length_discount_tiers_witness:
  "lengthDiscount 2 = 0.95 \<and> lengthDiscount 4 = 0.90 \<and> lengthDiscount 7 = 0.85
   \<and> lengthDiscount 1 = 1 \<and> lengthDiscount 3 = 0.95 \<and> lengthDiscount 6 = 0.90"
  using length_discount_tiers [of 2] length_discount_tiers [of 4] length_discount_tiers [of 7]
    length_discount_tiers [of 1] length_discount_tiers [of 3] length_discount_tiers [of 6]
  by simp

section \<open>The order of rounding and points savings\<close>

text \<open>
  Claim C9, as amended. The car rental engine computes the points savings from the cash
  price before it is rounded, and rounds both on return: for every input with the company
  found, positive days and a category that is not a member name inherited from
  \<open>Object.prototype\<close>, the returned \<open>pointsSavings\<close> is a whole number of cents within
  half a cent of \<open>min (points * 0.008) (raw * 0.5)\<close> for the unrounded cash price \<open>raw\<close>, and
  the returned \<open>cashPrice\<close> is a whole number of cents within half a cent of \<open>raw\<close>. The
  hotel engine rounds neither: for a selected property it reports the sum that
  \<open>calculateCashPrice\<close> returns and the minimum of \<open>pointsNum * 0.005\<close> and 0.8 times that
  sum.
\<close>

theorem savings_from_unrounded_cash:
  "(details_company c \<noteq> []
      \<and> find (\<lambda>r. company r = details_company c) carRentals = Some rental
      \<and> 0 < details_days c
      \<and> details_category c \<notin> set Object_prototype_members \<longrightarrow>
      \<bar>pointsSavings (costs carRentals c points)
         - Math_min (points * 0.008)
             (ref_rawCashPrice (basePrice rental)
                (categoryMultiplier rental (details_category c)) (details_days c) * 0.5)\<bar>
        \<le> 0.005
      \<and> pointsSavings (costs carRentals c points) * 100 \<in> \<int>
      \<and> \<bar>cashPrice (costs carRentals c points)
           - ref_rawCashPrice (basePrice rental)
               (categoryMultiplier rental (details_category c)) (details_days c)\<bar> \<le> 0.005
      \<and> cashPrice (costs carRentals c points) * 100 \<in> \<int>)
   \<and> (selectedProperty props h = Some p \<longrightarrow>
      cashPrice (hotel_cost Date Number props h) =
        calculateCashPrice Date (Some p) (prop_basePrice p)
          (details_checkIn h) (details_checkOut h) (details_rooms h)
      \<and> pointsSavings (hotel_cost Date Number props h) =
          Math_min (pointsNum Number (details_points h) * 0.005)
            (calculateCashPrice Date (Some p) (prop_basePrice p)
               (details_checkIn h) (details_checkOut h) (details_rooms h) * 0.8))"
proof (intro conjI impI)
  assume found: "details_company c \<noteq> []
      \<and> find (\<lambda>r. company r = details_company c) carRentals = Some rental
      \<and> 0 < details_days c
      \<and> details_category c \<notin> set Object_prototype_members"
  define raw where "raw = ref_rawCashPrice (basePrice rental)
                            (categoryMultiplier rental (details_category c)) (details_days c)"
  have s: "pointsSavings (costs carRentals c points)
             = round2 (Math_min (points * 0.008) (raw * 0.5))"
    and p: "cashPrice (costs carRentals c points) = round2 raw"
    using found by (simp_all add: costs_found raw_def)
  show "\<bar>pointsSavings (costs carRentals c points)
         - Math_min (points * 0.008)
             (ref_rawCashPrice (basePrice rental)
                (categoryMultiplier rental (details_category c)) (details_days c) * 0.5)\<bar>
        \<le> 0.005"
    unfolding s raw_def [symmetric] by (rule round2_near)
  show "pointsSavings (costs carRentals c points) * 100 \<in> \<int>"
    unfolding s by (rule round2_cents)
  show "\<bar>cashPrice (costs carRentals c points)
           - ref_rawCashPrice (basePrice rental)
               (categoryMultiplier rental (details_category c)) (details_days c)\<bar> \<le> 0.005"
    unfolding p raw_def [symmetric] by (rule round2_near)
  show "cashPrice (costs carRentals c points) * 100 \<in> \<int>"
    unfolding p by (rule round2_cents)
next
  assume sel: "selectedProperty props h = Some p"
  show cash: "cashPrice (hotel_cost Date Number props h) =
        calculateCashPrice Date (Some p) (prop_basePrice p)
          (details_checkIn h) (details_checkOut h) (details_rooms h)"
    using sel by (rule hotel_cost_selected(1))
  have "pointsSavings (hotel_cost Date Number props h) =
          calculatePointsSavings Number (details_points h)
            (cashPrice (hotel_cost Date Number props h))"
    using sel by (rule hotel_cost_selected(2))
  then show "pointsSavings (hotel_cost Date Number props h) =
          Math_min (pointsNum Number (details_points h) * 0.005)
            (calculateCashPrice Date (Some p) (prop_basePrice p)
               (details_checkIn h) (details_checkOut h) (details_rooms h) * 0.8)"
    by (simp only: cash calculatePointsSavings_def)
qed

text \<open>
  One day at base price 10: the unrounded cash price is 77.46625 and half of it 38.733125.
  Three June nights at base price 101: the unrounded 554.5581 is reported, and the savings
  are the smaller of 250 and 443.64648.
\<close>

theorem savings_from_unrounded_cash_witness:
  "details_company sample_budget_rental \<noteq> []
   \<and> find (\<lambda>r. company r = details_company sample_budget_rental) sample_carRentals
       = Some sample_budget
   \<and> 0 < details_days sample_budget_rental
   \<and> details_category sample_budget_rental \<notin> set Object_prototype_members
   \<and> \<bar>pointsSavings (costs sample_carRentals sample_budget_rental 10000) - 38.733125\<bar>
       \<le> 0.005
   \<and> pointsSavings (costs sample_carRentals sample_budget_rental 10000) * 100 \<in> \<int>
   \<and> \<bar>cashPrice (costs sample_carRentals sample_budget_rental 10000) - 77.46625\<bar> \<le> 0.005
   \<and> cashPrice (costs sample_carRentals sample_budget_rental 10000) * 100 \<in> \<int>
   \<and> selectedProperty sample_properties sample_stay = Some sample_austin
   \<and> cashPrice (hotel_cost sample_Date sample_Number sample_properties sample_stay) = 554.5581
   \<and> pointsSavings (hotel_cost sample_Date sample_Number sample_properties sample_stay)
       = Math_min (50000 * 0.005) (554.5581 * 0.8)"
proof -
  have raw: "ref_rawCashPrice (basePrice sample_budget)
               (categoryMultiplier sample_budget (details_category sample_budget_rental))
               (details_days sample_budget_rental) = 77.46625"
    by (simp add: ref_rawCashPrice_def ref_discount_def categoryMultiplier_def
        category_lookup_def sample_budget_def sample_budget_rental_def Let_def)
  have least: "Math_min (10000 * 0.008) (77.46625 * 0.5) = 38.733125"
    by (simp add: Math_min_def)
  have h: "calculateCashPrice sample_Date (Some sample_austin)
             (prop_basePrice sample_austin) (details_checkIn sample_stay)
             (details_checkOut sample_stay) (details_rooms sample_stay) = 554.5581"
    by (simp add: hotel_engine sample_hotel_tables sample_stay_def)
  have n: "pointsNum sample_Number (details_points sample_stay) = 50000"
    by (simp add: pointsNum_def sample_Number_def sample_stay_def)
  have own: "details_category sample_budget_rental \<notin> set Object_prototype_members"
    by (simp add: sample_budget_rental_def Object_prototype_members_def)
  note inst = savings_from_unrounded_cash [of sample_budget_rental sample_carRentals
      sample_budget 10000 sample_properties sample_stay sample_austin
      sample_Date sample_Number, unfolded raw least h n]
  show ?thesis
    using sample_budget_rental_found own sample_stay_selected(1) inst by blast
qed

text \<open>
  Claim C9 as it is stated fails at one day at base price 10 with 10000 points: the
  returned cash price is 77.47 and the returned savings are 38.73, where rounding the cash
  price first gives \<open>round2 (min 80 (77.47 * 0.5)) = 38.74\<close>.
\<close>

theorem rounded_cash_savings_counterexample:
  "details_company sample_budget_rental \<noteq> []
   \<and> find (\<lambda>r. company r = details_company sample_budget_rental) sample_carRentals
       = Some sample_budget
   \<and> 0 < details_days sample_budget_rental
   \<and> cashPrice (costs sample_carRentals sample_budget_rental 10000) = 77.47
   \<and> pointsSavings (costs sample_carRentals sample_budget_rental 10000) = 38.73
   \<and> round2 (Math_min (10000 * 0.008)
        (cashPrice (costs sample_carRentals sample_budget_rental 10000) * 0.5)) = 38.74
   \<and> pointsSavings (costs sample_carRentals sample_budget_rental 10000)
       \<noteq> round2 (Math_min (10000 * 0.008)
            (cashPrice (costs sample_carRentals sample_budget_rental 10000) * 0.5))"
  by (simp add: sample_budget_rental_found sample_budget_rental_costs)
    (simp add: round2_def Math_round_def Math_min_def)

section \<open>Negative points balances\<close>

text \<open>
  Claim C10. Neither engine clamps the points savings at 0: there is a car rental input
  (company found, positive days, negative points) and a hotel input (property selected,
  positive nights, a points string that is a negative number) with a positive cash price
  and strictly negative points savings, so that cash price minus savings exceeds the cash
  price.
\<close>

theorem negative_points_negative_savings:
  "(\<exists>carRentals c points rental.
      details_company c \<noteq> []
      \<and> find (\<lambda>r. company r = details_company c) carRentals = Some rental
      \<and> 0 < details_days c \<and> points < 0
      \<and> 0 < cashPrice (costs carRentals c points)
      \<and> pointsSavings (costs carRentals c points) < 0
      \<and> cashPrice (costs carRentals c points)
          < cashPrice (costs carRentals c points) - pointsSavings (costs carRentals c points))
   \<and> (\<exists>Date Number props h p v.
      selectedProperty props h = Some p
      \<and> 0 < nights_between Date (details_checkIn h) (details_checkOut h)
      \<and> Number (details_points h) = Some v \<and> v < 0
      \<and> 0 < cashPrice (hotel_cost Date Number props h)
      \<and> pointsSavings (hotel_cost Date Number props h) < 0
      \<and> cashPrice (hotel_cost Date Number props h)
          < cashPrice (hotel_cost Date Number props h)
            - pointsSavings (hotel_cost Date Number props h))"
proof (intro conjI)
  show "\<exists>carRentals c points rental.
      details_company c \<noteq> []
      \<and> find (\<lambda>r. company r = details_company c) carRentals = Some rental
      \<and> 0 < details_days c \<and> points < 0
      \<and> 0 < cashPrice (costs carRentals c points)
      \<and> pointsSavings (costs carRentals c points) < 0
      \<and> cashPrice (costs carRentals c points)
          < cashPrice (costs carRentals c points) - pointsSavings (costs carRentals c points)"
    by (intro exI [of _ sample_carRentals] exI [of _ sample_rental] exI [of _ "- 1000"]
        exI [of _ sample_hertz])
      (simp add: sample_rental_found sample_rental_costs)
next
  show "\<exists>Date Number props h p v.
      selectedProperty props h = Some p
      \<and> 0 < nights_between Date (details_checkIn h) (details_checkOut h)
      \<and> Number (details_points h) = Some v \<and> v < 0
      \<and> 0 < cashPrice (hotel_cost Date Number props h)
      \<and> pointsSavings (hotel_cost Date Number props h) < 0
      \<and> cashPrice (hotel_cost Date Number props h)
          < cashPrice (hotel_cost Date Number props h)
            - pointsSavings (hotel_cost Date Number props h)"
    by (intro exI [of _ sample_Date] exI [of _ sample_Number] exI [of _ sample_properties]
        exI [of _ sample_debt_stay] exI [of _ sample_austin] exI [of _ "- 1000"])
      (simp add: sample_debt_stay_selected sample_debt_stay_costs)
qed

end
